theory Spec2Isabelle
  imports Complex_Main
begin

section \<open>Compound wallet risk scoring: the scorer of \<open>compound_risk_scorer.py\<close>\<close>

text \<open>
  The program is the Python class \<open>CompoundRiskScorer\<close>. Python's unbounded integers
  are \<open>int\<close>, the results of \<open>len\<close> are \<open>nat\<close>, and the floating-point
  quantities (amounts, ratios) are modelled as \<open>real\<close>: the scorer only compares them
  with fixed thresholds, and the extractor only adds and divides them.
\<close>

subsection \<open>The feature dictionary\<close>

text \<open>
  \<open>extract_features\<close> returns a dictionary with a fixed set of keys; it is a record
  with one field per key. The three counts are lengths of lists.
\<close>

record features =
  total_transactions :: nat
  liquidation_count :: nat
  account_age_days :: int
  days_since_last_activity :: int
  activity_frequency :: real
  supply_ratio :: real
  borrow_ratio :: real
  repay_ratio :: real
  total_supply_volume :: real
  total_borrow_volume :: real
  total_repay_volume :: real
  repayment_ratio :: real
  asset_diversity :: nat
  volatile_asset_ratio :: real
  active_positions :: nat
  current_utilization :: real
  avg_liquidation_amount :: real
  total_liquidated_value :: real
  days_since_last_liquidation :: int

subsection \<open>The weights of \<open>__init__\<close>\<close>

text \<open>\<open>self.risk_weights\<close>, set once in the constructor and only read afterwards.\<close>

definition liquidation_penalty :: int where "liquidation_penalty = 200"
definition health_factor_penalty :: int where "health_factor_penalty = 150"
definition volatility_penalty :: int where "volatility_penalty = 100"
definition frequency_bonus :: int where "frequency_bonus = 50"
definition repayment_bonus :: int where "repayment_bonus = 100"
definition diversification_bonus :: int where "diversification_bonus = 75"

subsection \<open>\<open>calculate_risk_score\<close>\<close>

text \<open>
  The source updates the variable \<open>base_score\<close> nine times, once per rule, and clamps
  it at the end. Each rule is one function from the features to the amount it adds
  (negative for a penalty), in the order of the source.
\<close>

definition adj_liquidations :: "features \<Rightarrow> int" where
  "adj_liquidations f = - (int (liquidation_count f) * liquidation_penalty)"

definition adj_recent_liquidation :: "features \<Rightarrow> int" where
  "adj_recent_liquidation f =
     (if days_since_last_liquidation f < 30 then - 100
      else if days_since_last_liquidation f < 90 then - 50
      else 0)"

definition adj_repayment :: "features \<Rightarrow> int" where
  "adj_repayment f =
     (if repayment_ratio f > 0.9 then repayment_bonus
      else if repayment_ratio f < 0.5 then - repayment_bonus
      else 0)"

definition adj_utilization :: "features \<Rightarrow> int" where
  "adj_utilization f =
     (if current_utilization f > 0.8 then - 150
      else if current_utilization f > 0.6 then - 75
      else 0)"

definition adj_frequency :: "features \<Rightarrow> int" where
  "adj_frequency f =
     (if activity_frequency f > 2 then frequency_bonus
      else if activity_frequency f < 0.5 then - 50
      else 0)"

definition adj_diversity :: "features \<Rightarrow> int" where
  "adj_diversity f =
     (if asset_diversity f \<ge> 3 then diversification_bonus
      else if asset_diversity f = 1 then - 25
      else 0)"

definition adj_volatile :: "features \<Rightarrow> int" where
  "adj_volatile f =
     (if volatile_asset_ratio f > 0.7 then - volatility_penalty else 0)"

definition adj_account_age :: "features \<Rightarrow> int" where
  "adj_account_age f =
     (if account_age_days f > 365 then 50
      else if account_age_days f < 30 then - 50
      else 0)"

definition adj_recent_activity :: "features \<Rightarrow> int" where
  "adj_recent_activity f =
     (if days_since_last_activity f < 7 then 25
      else if days_since_last_activity f > 90 then - 75
      else 0)"

text \<open>The value of \<open>base_score\<close> when the last rule has run, before the clamp.\<close>

definition base_score :: "features \<Rightarrow> int" where
  "base_score f =
     500 + adj_liquidations f + adj_recent_liquidation f + adj_repayment f
       + adj_utilization f + adj_frequency f + adj_diversity f + adj_volatile f
       + adj_account_age f + adj_recent_activity f"

text \<open>\<open>final_score = max(0, min(1000, base_score))\<close>; \<open>int(...)\<close> of an integer is itself.\<close>

definition calculate_risk_score :: "features \<Rightarrow> int" where
  "calculate_risk_score f = max 0 (min 1000 (base_score f))"

text \<open>
  The features \<open>extract_features\<close> computes for a wallet with no transactions, no
  liquidations and no positions: every count, sum and ratio is 0 and the two recency
  fields take the fallback 999.
\<close>

definition zero_activity_features :: features where
  "zero_activity_features =
     \<lparr> total_transactions = 0, liquidation_count = 0, account_age_days = 0,
       days_since_last_activity = 999, activity_frequency = 0, supply_ratio = 0,
       borrow_ratio = 0, repay_ratio = 0, total_supply_volume = 0,
       total_borrow_volume = 0, total_repay_volume = 0, repayment_ratio = 0,
       asset_diversity = 0, volatile_asset_ratio = 0, active_positions = 0,
       current_utilization = 0, avg_liquidation_amount = 0,
       total_liquidated_value = 0, days_since_last_liquidation = 999 \<rparr>"

text \<open>
  A feature set on which every rewarding rule fires: no liquidation, good repayment,
  low utilization, frequent use of three assets, an old account used this week.
\<close>

definition best_features :: features where
  "best_features =
     \<lparr> total_transactions = 40, liquidation_count = 0, account_age_days = 400,
       days_since_last_activity = 1, activity_frequency = 3, supply_ratio = 1/2,
       borrow_ratio = 1/4, repay_ratio = 1/4, total_supply_volume = 1000,
       total_borrow_volume = 100, total_repay_volume = 100, repayment_ratio = 1,
       asset_diversity = 3, volatile_asset_ratio = 1/2, active_positions = 1,
       current_utilization = 1/10, avg_liquidation_amount = 0,
       total_liquidated_value = 0, days_since_last_liquidation = 999 \<rparr>"

text \<open>
  A feature set with two liquidations, the last one ten days ago, whose other features
  sit inside the band where their rule neither rewards nor penalises.
\<close>

definition two_liquidations_features :: features where
  "two_liquidations_features =
     \<lparr> total_transactions = 10, liquidation_count = 2, account_age_days = 100,
       days_since_last_activity = 20, activity_frequency = 1, supply_ratio = 1/2,
       borrow_ratio = 1/4, repay_ratio = 1/4, total_supply_volume = 1000,
       total_borrow_volume = 100, total_repay_volume = 70, repayment_ratio = 7/10,
       asset_diversity = 2, volatile_asset_ratio = 1/2, active_positions = 1,
       current_utilization = 1/10, avg_liquidation_amount = 50,
       total_liquidated_value = 100, days_since_last_liquidation = 10 \<rparr>"

text \<open>
  "Neutral" for a feature other than the two liquidation features: its value triggers
  neither branch of its rule, so the rule leaves \<open>base_score\<close> unchanged. The source
  has no such notion; the predicate spells out the bands between the thresholds of
  \<open>calculate_risk_score\<close>.
\<close>

definition neutral_other_features :: "features \<Rightarrow> bool" where
  "neutral_other_features f =
     (0.5 \<le> repayment_ratio f \<and> repayment_ratio f \<le> 0.9
      \<and> current_utilization f \<le> 0.6
      \<and> 0.5 \<le> activity_frequency f \<and> activity_frequency f \<le> 2
      \<and> asset_diversity f < 3 \<and> asset_diversity f \<noteq> 1
      \<and> volatile_asset_ratio f \<le> 0.7
      \<and> 30 \<le> account_age_days f \<and> account_age_days f \<le> 365
      \<and> 7 \<le> days_since_last_activity f \<and> days_since_last_activity f \<le> 90)"

subsection \<open>\<open>generate_risk_explanation\<close>\<close>

text \<open>Python's \<open>str\<close> of a non-negative integer (the \<open>{...}\<close> of the f-string).\<close>

fun str_nat :: "nat \<Rightarrow> string" where
  "str_nat n =
     (if n < 10 then [''0123456789'' ! n]
      else str_nat (n div 10) @ [''0123456789'' ! (n mod 10)])"

declare str_nat.simps [simp del]

text \<open>\<open>sep.join(xs)\<close>.\<close>

fun join :: "string \<Rightarrow> string list \<Rightarrow> string" where
  "join sep [] = []"
| "join sep [x] = x"
| "join sep (x # y # ys) = x @ sep @ join sep (y # ys)"

text \<open>
  The list \<open>explanations\<close> grows by one \<open>append\<close> per rule that fires; each rule
  contributes the list of what it appends. The parameter \<open>score\<close> is in the signature
  of the source and is never read.
\<close>

definition generate_risk_explanation :: "features \<Rightarrow> int \<Rightarrow> string" where
  "generate_risk_explanation f score =
     (let explanations =
        (if liquidation_count f > 0
         then [''Liquidated '' @ str_nat (liquidation_count f) @ '' time(s)''] else [])
        @ (if repayment_ratio f > 0.9 then [''Excellent repayment history'']
           else if repayment_ratio f < 0.5 then [''Poor repayment history'']
           else [])
        @ (if current_utilization f > 0.8 then [''High current utilization''] else [])
        @ (if activity_frequency f > 2 then [''Active user'']
           else if activity_frequency f < 0.5 then [''Inactive user'']
           else [])
        @ (if asset_diversity f \<ge> 3 then [''Well-diversified portfolio''] else [])
      in if explanations \<noteq> [] then join ''; '' explanations
         else ''Standard risk profile'')"

section \<open>The activity record and \<open>extract_features\<close>\<close>

subsection \<open>Exceptions\<close>

text \<open>
  The exceptions that the modelled operations can raise: \<open>int(s, 16)\<close> on a string
  that is no number and \<open>min\<close>/\<open>max\<close> of an empty list raise \<open>ValueError\<close>, a
  division by zero raises \<open>ZeroDivisionError\<close>. A computation that may raise returns
  \<open>error + 'a\<close>, with \<open>Inl\<close> the exception.
\<close>

datatype error = ValueError | ZeroDivisionError

definition and_then :: "error + 'a \<Rightarrow> ('a \<Rightarrow> error + 'b) \<Rightarrow> error + 'b" where
  "and_then m k = (case m of Inl e \<Rightarrow> Inl e | Inr x \<Rightarrow> k x)"

text \<open>\<open>a / b\<close> on numbers.\<close>

definition py_truediv :: "real \<Rightarrow> real \<Rightarrow> error + real" where
  "py_truediv a b = (if b = 0 then Inl ZeroDivisionError else Inr (a / b))"

text \<open>\<open>min(xs)\<close> and \<open>max(xs)\<close> on a list.\<close>

definition py_min :: "'a::linorder list \<Rightarrow> error + 'a" where
  "py_min xs = (case xs of [] \<Rightarrow> Inl ValueError | x # ys \<Rightarrow> Inr (fold min ys x))"

definition py_max :: "'a::linorder list \<Rightarrow> error + 'a" where
  "py_max xs = (case xs of [] \<Rightarrow> Inl ValueError | x # ys \<Rightarrow> Inr (fold max ys x))"

subsection \<open>Instants and durations\<close>

text \<open>
  A \<open>datetime\<close> is the number of microseconds since a fixed origin and a
  \<open>timedelta\<close> a number of microseconds; \<open>timedelta(days=d)\<close> is \<open>d\<close> times the
  microseconds of a day, and the attribute \<open>.days\<close> of a difference rounds towards
  minus infinity.
\<close>

definition day_us :: int where
  "day_us = 86400000000"

definition timedelta_days :: "int \<Rightarrow> int" where
  "timedelta_days d = d * day_us"

definition days :: "int \<Rightarrow> int" where
  "days delta = delta div day_us"

subsection \<open>The dictionaries of the activity record\<close>

record transaction =
  timestamp :: int
  tx_type :: string
  asset :: string
  amount :: real
  tx_hash :: string

record liquidation =
  liq_timestamp :: int
  liquidated_amount :: real
  collateral_seized :: real
  liq_asset :: string

record position =
  supplied :: real
  borrowed :: real

text \<open>
  \<open>current_positions\<close> is a dictionary from asset to position; Python dictionaries keep
  insertion order and \<open>values()\<close> walks it, so it is an association list.
\<close>

record wallet_data =
  wallet_address :: string
  transactions :: "transaction list"
  liquidations :: "liquidation list"
  current_positions :: "(string \<times> position) list"
  first_interaction :: "int option"
  last_interaction :: "int option"

subsection \<open>\<open>extract_features\<close>\<close>

text \<open>
  The source reads the clock with \<open>datetime.now()\<close> wherever it needs the present;
  the model takes the instant as the parameter \<open>now\<close>, one value for the whole call.
\<close>

text \<open>The block "Time-based features": age, recency and frequency.\<close>

definition time_features :: "int \<Rightarrow> transaction list \<Rightarrow> error + (int \<times> int \<times> real)" where
  "time_features now txs =
     (if txs \<noteq> [] then
        and_then (py_min (map timestamp txs)) (\<lambda>first_tx.
        and_then (py_max (map timestamp txs)) (\<lambda>last_tx.
          let age = days (now - first_tx);
              since = days (now - last_tx)
          in and_then (py_truediv (real (length txs)) (real_of_int (max age 1))) (\<lambda>q.
               Inr (age, since, q * 30))))
      else Inr (0, 999, 0))"

text \<open>The block "Liquidation analysis": mean, sum and recency of the liquidations.\<close>

definition liquidation_features :: "int \<Rightarrow> liquidation list \<Rightarrow> error + (real \<times> real \<times> int)" where
  "liquidation_features now liqs =
     (if liqs \<noteq> [] then
        and_then (py_min (map (\<lambda>liq. days (now - liq_timestamp liq)) liqs)) (\<lambda>d.
          Inr (sum_list (map liquidated_amount liqs) / real (length liqs),
               sum_list (map liquidated_amount liqs), d))
      else Inr (0, 0, 999))"

definition volatile_assets :: "string list" where
  "volatile_assets = [''ETH'', ''WBTC'']"

text \<open>The sum of the amounts of the transactions of one type.\<close>

definition volume :: "string \<Rightarrow> transaction list \<Rightarrow> real" where
  "volume ty txs = sum_list (map amount (filter (\<lambda>tx. tx_type tx = ty) txs))"

definition extract_features :: "int \<Rightarrow> wallet_data \<Rightarrow> error + features" where
  "extract_features now wd =
     (let txs = transactions wd;
          liqs = liquidations wd;
          positions = current_positions wd;
          tx_types = map tx_type txs;
          total_supply = volume ''supply'' txs;
          total_borrow = volume ''borrow'' txs;
          total_repay = volume ''repay'' txs;
          volatile_tx_count = length (filter (\<lambda>tx. asset tx \<in> set volatile_assets) txs);
          total_supplied = sum_list (map (\<lambda>(k, v). supplied v) positions);
          total_borrowed = sum_list (map (\<lambda>(k, v). borrowed v) positions)
      in
        and_then (time_features now txs) (\<lambda>(age, since, frequency).
        and_then (py_truediv (real (count_list tx_types ''supply''))
                    (real (max (length tx_types) 1))) (\<lambda>supply_r.
        and_then (py_truediv (real (count_list tx_types ''borrow''))
                    (real (max (length tx_types) 1))) (\<lambda>borrow_r.
        and_then (py_truediv (real (count_list tx_types ''repay''))
                    (real (max (length tx_types) 1))) (\<lambda>repay_r.
        and_then (py_truediv total_repay (max total_borrow 1)) (\<lambda>repayment_r.
        and_then (py_truediv (real volatile_tx_count) (real (max (length txs) 1))) (\<lambda>volatile_r.
        and_then (py_truediv total_borrowed (max total_supplied 1)) (\<lambda>utilization.
        and_then (liquidation_features now liqs) (\<lambda>(avg_liq, total_liq, since_liq).
          Inr \<lparr> total_transactions = length txs,
                liquidation_count = length liqs,
                account_age_days = age,
                days_since_last_activity = since,
                activity_frequency = frequency,
                supply_ratio = supply_r,
                borrow_ratio = borrow_r,
                repay_ratio = repay_r,
                total_supply_volume = total_supply,
                total_borrow_volume = total_borrow,
                total_repay_volume = total_repay,
                repayment_ratio = repayment_r,
                asset_diversity = length (remdups (map asset txs)),
                volatile_asset_ratio = volatile_r,
                active_positions =
                  length (filter (\<lambda>(k, v). supplied v > 0 \<or> borrowed v > 0) positions),
                current_utilization = utilization,
                avg_liquidation_amount = avg_liq,
                total_liquidated_value = total_liq,
                days_since_last_liquidation = since_liq \<rparr>)))))))))"

section \<open>The simulator \<open>_simulate_compound_data\<close>\<close>

subsection \<open>The library functions it calls\<close>

text \<open>
  The simulator draws from NumPy's global generator and parses the seed with Python's
  \<open>int(s, 16)\<close>. Neither is code of the program, so both are parameters: a record of
  the functions called, over a type \<open>'g\<close> of generator states. A draw takes the
  state and returns the value drawn with the next state. \<open>np.random.seed(n)\<close>
  replaces the state by one that is a function of \<open>n\<close> alone, whatever the state
  was before, hence \<open>np_seed\<close> takes no state.
\<close>

record 'g library =
  py_int16 :: "string \<Rightarrow> error + int"
  np_seed :: "nat \<Rightarrow> 'g"
  np_poisson :: "real \<Rightarrow> 'g \<Rightarrow> nat \<times> 'g"
  np_randint :: "int \<Rightarrow> int \<Rightarrow> 'g \<Rightarrow> int \<times> 'g"
  np_choice_p :: "string list \<Rightarrow> real list \<Rightarrow> 'g \<Rightarrow> string \<times> 'g"
  np_choice :: "string list \<Rightarrow> 'g \<Rightarrow> string \<times> 'g"
  np_choice_n :: "string list \<Rightarrow> nat \<Rightarrow> 'g \<Rightarrow> string list \<times> 'g"
  np_lognormal :: "real \<Rightarrow> real \<Rightarrow> 'g \<Rightarrow> real \<times> 'g"
  np_random :: "'g \<Rightarrow> real \<times> 'g"

subsection \<open>Hexadecimal numerals\<close>

text \<open>
  What \<open>int(s, 16)\<close> returns on a string of hexadecimal digits: the digits read in
  base 16, most significant first.
\<close>

definition hex_digit :: "char \<Rightarrow> nat option" where
  "hex_digit c = map_of
     [(CHR ''0'', 0), (CHR ''1'', 1), (CHR ''2'', 2), (CHR ''3'', 3), (CHR ''4'', 4),
      (CHR ''5'', 5), (CHR ''6'', 6), (CHR ''7'', 7), (CHR ''8'', 8), (CHR ''9'', 9),
      (CHR ''a'', 10), (CHR ''b'', 11), (CHR ''c'', 12), (CHR ''d'', 13), (CHR ''e'', 14),
      (CHR ''f'', 15), (CHR ''A'', 10), (CHR ''B'', 11), (CHR ''C'', 12), (CHR ''D'', 13),
      (CHR ''E'', 14), (CHR ''F'', 15)] c"

definition is_hex_digit :: "char \<Rightarrow> bool" where
  "is_hex_digit c = (hex_digit c \<noteq> None)"

definition hex_value :: "string \<Rightarrow> nat" where
  "hex_value s = foldl (\<lambda>acc c. acc * 16 + (case hex_digit c of Some d \<Rightarrow> d | None \<Rightarrow> 0)) 0 s"

text \<open>The slice \<open>wallet_address[-8:]\<close>: the last eight characters, or all of a shorter string.\<close>

definition last8 :: "string \<Rightarrow> string" where
  "last8 s = drop (length s - 8) s"

subsection \<open>The three loops\<close>

text \<open>
  \<open>for i in range(num_transactions)\<close>: each round draws, in this order, a day offset,
  a type, an asset, an amount and the 64 characters of the hash.
\<close>

fun gen_transactions :: "'g library \<Rightarrow> int \<Rightarrow> nat \<Rightarrow> 'g \<Rightarrow> transaction list \<times> 'g" where
  "gen_transactions lib current_time 0 g = ([], g)"
| "gen_transactions lib current_time (Suc n) g =
     (let (d, g1) = np_randint lib 0 180 g;
          tx_time = current_time - timedelta_days d;
          (ty, g2) = np_choice_p lib [''supply'', ''borrow'', ''repay'', ''withdraw'']
                       [0.3, 0.25, 0.25, 0.2] g1;
          (a, g3) = np_choice_p lib [''ETH'', ''DAI'', ''USDC'', ''USDT'', ''WBTC'']
                      [0.3, 0.25, 0.25, 0.15, 0.05] g2;
          (amt, g4) = np_lognormal lib 7 1.5 g3;
          (h, g5) = np_choice_n lib (map (\<lambda>c. [c]) ''0123456789abcdef'') 64 g4;
          tx = \<lparr> timestamp = tx_time, tx_type = ty, asset = a, amount = amt,
                 tx_hash = ''0x'' @ concat h \<rparr>;
          (rest, g6) = gen_transactions lib current_time n g5
      in (tx # rest, g6))"

text \<open>\<open>for _ in range(num_liquidations)\<close>.\<close>

fun gen_liquidations :: "'g library \<Rightarrow> int \<Rightarrow> nat \<Rightarrow> 'g \<Rightarrow> liquidation list \<times> 'g" where
  "gen_liquidations lib current_time 0 g = ([], g)"
| "gen_liquidations lib current_time (Suc n) g =
     (let (d, g1) = np_randint lib 0 180 g;
          liq_time = current_time - timedelta_days d;
          (la, g2) = np_lognormal lib 8 1 g1;
          (cs, g3) = np_lognormal lib 8 1 g2;
          (a, g4) = np_choice lib [''ETH'', ''WBTC'', ''DAI''] g3;
          liq = \<lparr> liq_timestamp = liq_time, liquidated_amount = la,
                  collateral_seized = cs, liq_asset = a \<rparr>;
          (rest, g5) = gen_liquidations lib current_time n g4
      in (liq # rest, g5))"

text \<open>
  \<open>for asset in ['ETH', 'DAI', 'USDC', 'USDT', 'WBTC']\<close>. In
  \<open>x if cond else 0\<close> the condition is evaluated first, so each of the two fields
  draws its coin before its amount.
\<close>

fun gen_positions :: "'g library \<Rightarrow> string list \<Rightarrow> 'g \<Rightarrow> (string \<times> position) list \<times> 'g" where
  "gen_positions lib [] g = ([], g)"
| "gen_positions lib (a # as) g =
     (let (r, g1) = np_random lib g in
      if r < 0.4 then
        (let (r1, g2) = np_random lib g1;
             (s, g3) = (if r1 < 0.7 then np_lognormal lib 6 2 g2 else (0, g2));
             (r2, g4) = np_random lib g3;
             (b, g5) = (if r2 < 0.5 then np_lognormal lib 5 2 g4 else (0, g4));
             (rest, g6) = gen_positions lib as g5
         in ((a, \<lparr> supplied = s, borrowed = b \<rparr>) # rest, g6))
      else gen_positions lib as g1)"

subsection \<open>The simulator\<close>

text \<open>
  Everything after the call of \<open>np.random.seed\<close>, from the seeded state \<open>g0\<close>. The
  instant \<open>current_time\<close> is the value of \<open>datetime.now()\<close>.
\<close>

definition simulate_seeded :: "'g library \<Rightarrow> int \<Rightarrow> string \<Rightarrow> 'g \<Rightarrow> wallet_data \<times> 'g" where
  "simulate_seeded lib current_time wallet g0 =
     (let (num_transactions, g1) = np_poisson lib 15 g0;
          (txs, g2) = gen_transactions lib current_time num_transactions g1;
          (r, g3) = np_random lib g2;
          (liqs, g4) =
             (if r < 0.15 then
                (let (k, g') = np_poisson lib 1 g3
                 in gen_liquidations lib current_time (k + 1) g')
              else ([], g3));
          (positions, g5) =
             gen_positions lib [''ETH'', ''DAI'', ''USDC'', ''USDT'', ''WBTC''] g4
      in (\<lparr> wallet_address = wallet,
            transactions = txs,
            liquidations = liqs,
            current_positions = positions,
            first_interaction =
              (case map timestamp txs of [] \<Rightarrow> None | t # ts \<Rightarrow> Some (fold min ts t)),
            last_interaction =
              (case map timestamp txs of [] \<Rightarrow> None | t # ts \<Rightarrow> Some (fold max ts t)) \<rparr>,
          g5))"

text \<open>
  \<open>_simulate_compound_data\<close> (an Isabelle name cannot start with an underscore). The
  argument \<open>g\<close> is the state of the global generator when the call starts. When
  \<open>int\<close> raises, nothing has been drawn, and the caller still has \<open>g\<close>.
\<close>

definition simulate_compound_data ::
    "'g library \<Rightarrow> int \<Rightarrow> 'g \<Rightarrow> string \<Rightarrow> error + (wallet_data \<times> 'g)" where
  "simulate_compound_data lib current_time g wallet =
     (case py_int16 lib (last8 wallet) of
        Inl e \<Rightarrow> Inl e
      | Inr v \<Rightarrow> Inr (simulate_seeded lib current_time wallet (np_seed lib (nat (v mod 2 ^ 32)))))"

definition fetch_wallet_transactions ::
    "'g library \<Rightarrow> int \<Rightarrow> 'g \<Rightarrow> string \<Rightarrow> error + (wallet_data \<times> 'g)" where
  "fetch_wallet_transactions lib current_time g wallet =
     simulate_compound_data lib current_time g wallet"

section \<open>The batch loop of \<open>process_wallet_list\<close>\<close>

text \<open>One row of \<open>results\<close>.\<close>

record score_row =
  row_wallet_id :: string
  row_score :: int
  row_explanation :: string
  row_liquidation_count :: nat
  row_repayment_ratio :: real
  row_current_utilization :: real
  row_activity_frequency :: real
  row_asset_diversity :: nat

text \<open>
  \<open>round(x, n)\<close>: to \<open>n\<close> decimal places, a tie going to the even neighbour.
\<close>

definition py_round :: "real \<Rightarrow> nat \<Rightarrow> real" where
  "py_round x n =
     (let y = x * 10 ^ n;
          fl = \<lfloor>y\<rfloor>;
          r = y - of_int fl;
          k = (if r < 1/2 then fl else if r > 1/2 then fl + 1
               else if even fl then fl else fl + 1)
      in of_int k / 10 ^ n)"

text \<open>The row appended by the \<open>except\<close> branch.\<close>

definition error_row :: "string \<Rightarrow> score_row" where
  "error_row wallet =
     \<lparr> row_wallet_id = wallet, row_score = 500,
       row_explanation = ''Error in processing'', row_liquidation_count = 0,
       row_repayment_ratio = 0, row_current_utilization = 0,
       row_activity_frequency = 0, row_asset_diversity = 0 \<rparr>"

text \<open>The row appended at the end of the \<open>try\<close> block.\<close>

definition result_row :: "string \<Rightarrow> features \<Rightarrow> score_row" where
  "result_row wallet f =
     (let score = calculate_risk_score f;
          explanation = generate_risk_explanation f score
      in \<lparr> row_wallet_id = wallet, row_score = score, row_explanation = explanation,
           row_liquidation_count = liquidation_count f,
           row_repayment_ratio = py_round (repayment_ratio f) 3,
           row_current_utilization = py_round (current_utilization f) 3,
           row_activity_frequency = py_round (activity_frequency f) 2,
           row_asset_diversity = asset_diversity f \<rparr>)"

text \<open>
  The body of the \<open>try\<close> block for one wallet: the row it builds or the exception that
  leaves it, with the state of the global generator afterwards. The simulator and the
  extractor read the clock one after the other; here both get the same instant \<open>now\<close>.
\<close>

definition try_wallet :: "'g library \<Rightarrow> int \<Rightarrow> 'g \<Rightarrow> string \<Rightarrow> (error + score_row) \<times> 'g" where
  "try_wallet lib now g wallet =
     (case fetch_wallet_transactions lib now g wallet of
        Inl e \<Rightarrow> (Inl e, g)
      | Inr (wd, g') \<Rightarrow>
          (case extract_features now wd of
             Inl e \<Rightarrow> (Inl e, g')
           | Inr f \<Rightarrow> (Inr (result_row wallet f), g')))"

text \<open>
  The loop over \<open>df['wallet_id']\<close>, returning the list \<open>results\<close>. Reading the input
  file and writing the two output files are outside the model.
\<close>

fun process_wallet_list :: "'g library \<Rightarrow> int \<Rightarrow> 'g \<Rightarrow> string list \<Rightarrow> score_row list" where
  "process_wallet_list lib now g [] = []"
| "process_wallet_list lib now g (wallet # rest) =
     (case try_wallet lib now g wallet of
        (Inr row, g') \<Rightarrow> row # process_wallet_list lib now g' rest
      | (Inl e, g') \<Rightarrow> error_row wallet # process_wallet_list lib now g' rest)"

section \<open>A small library for concrete runs\<close>

text \<open>
  An instance of the library record on which the definitions can be run: the state is
  a counter, every draw is a function of the counter and advances it by one, and
  \<open>int(s, 16)\<close> accepts the non-empty strings of hexadecimal digits.
\<close>

definition strict_int16 :: "string \<Rightarrow> error + int" where
  "strict_int16 s =
     (if s \<noteq> [] \<and> list_all is_hex_digit s then Inr (int (hex_value s)) else Inl ValueError)"

definition counter_library :: "nat library" where
  "counter_library =
     \<lparr> py_int16 = strict_int16,
       np_seed = (\<lambda>n. n),
       np_poisson = (\<lambda>lam g. (g mod 3, g + 1)),
       np_randint = (\<lambda>lo hi g. (lo + int g mod (hi - lo), g + 1)),
       np_choice_p = (\<lambda>xs ps g. (xs ! (g mod length xs), g + 1)),
       np_choice = (\<lambda>xs g. (xs ! (g mod length xs), g + 1)),
       np_choice_n = (\<lambda>xs n g. (replicate n (xs ! (g mod length xs)), g + 1)),
       np_lognormal = (\<lambda>mu sigma g. (real g + 1, g + 1)),
       np_random = (\<lambda>g. (real (g mod 10) / 10, g + 1)) \<rparr>"

text \<open>A wallet with no transactions, no liquidations and no positions.\<close>

definition empty_wallet :: wallet_data where
  "empty_wallet =
     \<lparr> wallet_address = ''0x0000000000000000000000000000000000000003'',
       transactions = [], liquidations = [], current_positions = [],
       first_interaction = None, last_interaction = None \<rparr>"

text \<open>
  A wallet with two positions of which each supplies less than 1 and both together
  exactly 1.
\<close>

definition two_position_wallet :: wallet_data where
  "two_position_wallet =
     \<lparr> wallet_address = ''0x0000000000000000000000000000000000000003'',
       transactions = [], liquidations = [],
       current_positions =
         [(''ETH'', \<lparr> supplied = 1/2, borrowed = 1 \<rparr>),
          (''DAI'', \<lparr> supplied = 1/2, borrowed = 1 \<rparr>)],
       first_interaction = None, last_interaction = None \<rparr>"

text \<open>A wallet identifier whose last eight characters are the hexadecimal numeral of 3.\<close>

definition wallet_3 :: string where
  "wallet_3 = ''0x0000000000000000000000000000000000000003''"

text \<open>
  What the loop appends for one outcome of the \<open>try\<close> block: the row built, or the
  row of the \<open>except\<close> branch.
\<close>

definition row_of :: "error + score_row \<Rightarrow> string \<Rightarrow> score_row" where
  "row_of r w = (case r of Inl e \<Rightarrow> error_row w | Inr row \<Rightarrow> row)"

section \<open>Properties\<close>

lemmas adj_defs =
  adj_liquidations_def adj_recent_liquidation_def adj_repayment_def adj_utilization_def
  adj_frequency_def adj_diversity_def adj_volatile_def adj_account_age_def
  adj_recent_activity_def liquidation_penalty_def volatility_penalty_def
  frequency_bonus_def repayment_bonus_def diversification_bonus_def


subsection \<open>Bounds of the single rules\<close>

lemma adj_liquidations_le: "adj_liquidations f \<le> 0"
  by (simp add: adj_liquidations_def liquidation_penalty_def)

lemma adj_recent_liquidation_le: "adj_recent_liquidation f \<le> 0"
  by (simp add: adj_recent_liquidation_def)

lemma adj_repayment_le: "adj_repayment f \<le> 100"
  by (simp add: adj_repayment_def repayment_bonus_def)

lemma adj_utilization_le: "adj_utilization f \<le> 0"
  by (simp add: adj_utilization_def)

lemma adj_frequency_le: "adj_frequency f \<le> 50"
  by (simp add: adj_frequency_def frequency_bonus_def)

lemma adj_diversity_le: "adj_diversity f \<le> 75"
  by (simp add: adj_diversity_def diversification_bonus_def)

lemma adj_volatile_le: "adj_volatile f \<le> 0"
  by (simp add: adj_volatile_def volatility_penalty_def)

lemma adj_account_age_le: "adj_account_age f \<le> 50"
  by (simp add: adj_account_age_def)

lemma adj_recent_activity_le: "adj_recent_activity f \<le> 25"
  by (simp add: adj_recent_activity_def)

lemma base_score_le_800: "base_score f \<le> 800"
  unfolding base_score_def
  using adj_liquidations_le [of f] adj_recent_liquidation_le [of f] adj_repayment_le [of f]
    adj_utilization_le [of f] adj_frequency_le [of f] adj_diversity_le [of f]
    adj_volatile_le [of f] adj_account_age_le [of f] adj_recent_activity_le [of f]
  by linarith

lemma zero_activity_adjustments:
  "adj_liquidations zero_activity_features = 0"
  "adj_recent_liquidation zero_activity_features = 0"
  "adj_repayment zero_activity_features = - 100"
  "adj_utilization zero_activity_features = 0"
  "adj_frequency zero_activity_features = - 50"
  "adj_diversity zero_activity_features = 0"
  "adj_volatile zero_activity_features = 0"
  "adj_account_age zero_activity_features = - 50"
  "adj_recent_activity zero_activity_features = - 75"
  by (simp_all add: adj_defs zero_activity_features_def)

lemma base_score_zero_activity: "base_score zero_activity_features = 225"
  by (simp add: base_score_def zero_activity_adjustments)

lemma best_adjustments:
  "adj_liquidations best_features = 0"
  "adj_recent_liquidation best_features = 0"
  "adj_repayment best_features = 100"
  "adj_utilization best_features = 0"
  "adj_frequency best_features = 50"
  "adj_diversity best_features = 75"
  "adj_volatile best_features = 0"
  "adj_account_age best_features = 50"
  "adj_recent_activity best_features = 25"
  by (simp_all add: adj_defs best_features_def)

lemma base_score_best: "base_score best_features = 800"
  by (simp add: base_score_def best_adjustments)

lemma base_score_liquidation_step:
  "base_score (f\<lparr>liquidation_count := Suc k\<rparr>)
     = base_score (f\<lparr>liquidation_count := k\<rparr>) - 200"
  by (simp add: base_score_def adj_defs)

subsection \<open>The score\<close>

text \<open>
  Claim C1. For every feature set, whatever the values of its fields,
  \<open>calculate_risk_score\<close> returns an integer between 0 and 1000, both included.
\<close>

theorem calculate_risk_score_bounds:
  "0 \<le> calculate_risk_score f \<and> calculate_risk_score f \<le> 1000"
  by (simp add: calculate_risk_score_def)

theorem calculate_risk_score_bounds_witness:
  "0 \<le> calculate_risk_score best_features \<and> calculate_risk_score best_features \<le> 1000"
  by (rule calculate_risk_score_bounds)

text \<open>
  Claim C2, as the code has it. A feature set with the values of a wallet without
  activity (no liquidation, age 0, last activity and last liquidation 999 days ago,
  frequency, repayment ratio, utilization, diversity and volatile ratio all 0) scores
  225: from 500, the repayment ratio below 0.5 costs 100, the frequency below 0.5
  costs 50, the age below 30 days costs 50 and the inactivity of more than 90 days
  costs 75.
\<close>

theorem zero_activity_score:
  assumes "liquidation_count f = 0" and "account_age_days f = 0"
    and "days_since_last_activity f = 999" and "activity_frequency f = 0"
    and "repayment_ratio f = 0" and "current_utilization f = 0"
    and "asset_diversity f = 0" and "volatile_asset_ratio f = 0"
    and "days_since_last_liquidation f = 999"
  shows "calculate_risk_score f = 225"
proof -
  have "adj_liquidations f = 0" "adj_recent_liquidation f = 0" "adj_repayment f = - 100"
    "adj_utilization f = 0" "adj_frequency f = - 50" "adj_diversity f = 0"
    "adj_volatile f = 0" "adj_account_age f = - 50" "adj_recent_activity f = - 75"
    using assms by (simp_all add: adj_defs)
  then have "base_score f = 225"
    by (simp add: base_score_def)
  then show ?thesis
    by (simp add: calculate_risk_score_def)
qed

theorem zero_activity_score_witness:
  "calculate_risk_score zero_activity_features = 225"
  by (rule zero_activity_score) (simp_all add: zero_activity_features_def)

text \<open>
  The score 305 that claim C2 states is not the score of the zero-activity feature set.
\<close>

theorem zero_activity_score_not_305:
  "calculate_risk_score zero_activity_features \<noteq> 305"
  by (simp add: calculate_risk_score_def base_score_zero_activity)

text \<open>
  Claim C6. With every other feature fixed, a feature set with \<open>k + 1\<close> liquidations
  never scores more than the same feature set with \<open>k\<close> liquidations.
\<close>

theorem liquidation_count_monotone:
  "calculate_risk_score (f\<lparr>liquidation_count := k + 1\<rparr>)
     \<le> calculate_risk_score (f\<lparr>liquidation_count := k\<rparr>)"
  using base_score_liquidation_step [where f = f and k = k]
  by (simp add: calculate_risk_score_def)

theorem liquidation_count_monotone_witness:
  "calculate_risk_score (best_features\<lparr>liquidation_count := 0 + 1\<rparr>)
     \<le> calculate_risk_score (best_features\<lparr>liquidation_count := 0\<rparr>)"
  by (rule liquidation_count_monotone)

text \<open>
  Claim C8. With two liquidations, the last one ten days ago, and every other feature
  at a value that moves the score neither way, the sum of the rules is
  \<open>500 - 400 - 100 = 0\<close>: the score is 0 and the sum is not negative, so the lower
  clamp has nothing to do.
\<close>

theorem two_liquidations_score:
  assumes "liquidation_count f = 2" and "days_since_last_liquidation f = 10"
    and "neutral_other_features f"
  shows "calculate_risk_score f = 0 \<and> base_score f = 0 \<and> \<not> base_score f < 0"
proof -
  have "adj_liquidations f = - 400" "adj_recent_liquidation f = - 100"
    using assms(1,2) by (simp_all add: adj_defs)
  moreover have "adj_repayment f = 0" "adj_utilization f = 0" "adj_frequency f = 0"
    "adj_diversity f = 0" "adj_volatile f = 0" "adj_account_age f = 0"
    "adj_recent_activity f = 0"
    using assms(3) by (simp_all add: adj_defs neutral_other_features_def)
  ultimately have "base_score f = 0"
    by (simp add: base_score_def)
  then show ?thesis
    by (simp add: calculate_risk_score_def)
qed

theorem two_liquidations_score_witness:
  "calculate_risk_score two_liquidations_features = 0
   \<and> base_score two_liquidations_features = 0
   \<and> \<not> base_score two_liquidations_features < 0"
  by (rule two_liquidations_score)
    (simp_all add: two_liquidations_features_def neutral_other_features_def)

text \<open>
  The hypothesis on the other features is needed for the second half: with the values
  that the extractor gives a wallet without transactions, the same two liquidations
  bring the sum to \<open>- 275\<close>, and the score 0 is then the work of the clamp.
\<close>

lemma base_score_two_liquidations_no_activity:
  "base_score (zero_activity_features\<lparr>liquidation_count := 2,
      days_since_last_liquidation := 10\<rparr>) = - 275"
  by (simp add: base_score_def adj_defs zero_activity_features_def)

text \<open>
  Claim C9. No feature set scores more than 800: the rules add at most
  \<open>100 + 50 + 75 + 50 + 25 = 300\<close> to the base of 500, so the sum never exceeds 800,
  the upper clamp at 1000 leaves it as it is, and 800 is reached.
\<close>

theorem score_at_most_800:
  "calculate_risk_score f \<le> 800
   \<and> min 1000 (base_score f) = base_score f
   \<and> calculate_risk_score best_features = 800"
  using base_score_le_800 [of f] base_score_best
  by (simp add: calculate_risk_score_def)

theorem score_at_most_800_witness:
  "calculate_risk_score zero_activity_features \<le> 800
   \<and> min 1000 (base_score zero_activity_features) = base_score zero_activity_features
   \<and> calculate_risk_score best_features = 800"
  by (rule score_at_most_800)

subsection \<open>The explanation\<close>

text \<open>
  Claim C3, as the code has it. For a feature set with no liquidation and with
  repayment ratio, utilization, frequency and diversity all 0,
  \<open>generate_risk_explanation\<close> returns "Poor repayment history; Inactive user": the
  repayment ratio is below 0.5 and the frequency is below 0.5.
\<close>

theorem zero_activity_explanation:
  assumes "liquidation_count f = 0" and "repayment_ratio f = 0"
    and "current_utilization f = 0" and "activity_frequency f = 0"
    and "asset_diversity f = 0"
  shows "generate_risk_explanation f s = ''Poor repayment history; Inactive user''"
  using assms by (simp add: generate_risk_explanation_def)

theorem zero_activity_explanation_witness:
  "generate_risk_explanation zero_activity_features 225
     = ''Poor repayment history; Inactive user''"
  by (rule zero_activity_explanation) (simp_all add: zero_activity_features_def)

text \<open>
  The explanation of the zero-activity feature set, with its own score as the second
  argument, is not the string "Inactive user" that claim C3 states.
\<close>

theorem zero_activity_explanation_not_inactive_only:
  "generate_risk_explanation zero_activity_features
     (calculate_risk_score zero_activity_features) \<noteq> ''Inactive user''"
  by (simp add: generate_risk_explanation_def zero_activity_features_def)

text \<open>
  Claim C10. The explanation does not depend on the score argument, and two feature
  sets that agree on \<open>liquidation_count\<close>, \<open>repayment_ratio\<close>,
  \<open>current_utilization\<close>, \<open>activity_frequency\<close> and \<open>asset_diversity\<close> have the
  same explanation, whatever the two scores.
\<close>

theorem explanation_ignores_score:
  assumes "liquidation_count f = liquidation_count g"
    and "repayment_ratio f = repayment_ratio g"
    and "current_utilization f = current_utilization g"
    and "activity_frequency f = activity_frequency g"
    and "asset_diversity f = asset_diversity g"
  shows "generate_risk_explanation f s1 = generate_risk_explanation f s2
    \<and> generate_risk_explanation f s1 = generate_risk_explanation g s2"
  using assms by (simp add: generate_risk_explanation_def)

theorem explanation_ignores_score_witness:
  "generate_risk_explanation zero_activity_features 225
     = generate_risk_explanation zero_activity_features 1000
   \<and> generate_risk_explanation zero_activity_features 225
     = generate_risk_explanation (zero_activity_features\<lparr>account_age_days := 500\<rparr>) 1000"
  by (rule explanation_ignores_score) simp_all

subsection \<open>The extractor never raises\<close>







lemma extract_features_empty_wallet:
  "extract_features now empty_wallet = Inr zero_activity_features"
  by (simp add: extract_features_def Let_def and_then_def py_truediv_def empty_wallet_def
      time_features_def liquidation_features_def volume_def zero_activity_features_def)

lemma extract_features_two_position_wallet:
  "\<exists>f. extract_features now two_position_wallet = Inr f \<and> current_utilization f = 2"
  by (simp add: extract_features_def Let_def and_then_def py_truediv_def
      two_position_wallet_def time_features_def liquidation_features_def volume_def)



subsection \<open>The seed\<close>

lemma hex_digit_le_15: "hex_digit c = Some d \<Longrightarrow> d \<le> 15"
  by (auto simp add: hex_digit_def split: if_splits)

lemma hex_fold_bound:
  "list_all is_hex_digit s \<Longrightarrow>
   foldl (\<lambda>acc c. acc * 16 + (case hex_digit c of Some d \<Rightarrow> d | None \<Rightarrow> 0)) a s
     < (a + 1) * 16 ^ length s"
proof (induction s arbitrary: a)
  case Nil
  then show ?case by simp
next
  case (Cons c s)
  let ?F = "\<lambda>acc c. acc * 16 + (case hex_digit c of Some d \<Rightarrow> d | None \<Rightarrow> (0::nat))"
  from Cons.prems have c: "is_hex_digit c" and rest: "list_all is_hex_digit s"
    by simp_all
  from c obtain d where d: "hex_digit c = Some d"
    by (auto simp add: is_hex_digit_def)
  have "d \<le> 15"
    using d by (rule hex_digit_le_15)
  then have "a * 16 + d + 1 \<le> (a + 1) * 16"
    by simp
  then have le: "(a * 16 + d + 1) * 16 ^ length s \<le> (a + 1) * 16 * 16 ^ length s"
    by (rule mult_le_mono1)
  have "foldl ?F a (c # s) = foldl ?F (a * 16 + d) s"
    by (simp add: d)
  also have "\<dots> < (a * 16 + d + 1) * 16 ^ length s"
    by (rule Cons.IH [OF rest])
  also have "\<dots> \<le> (a + 1) * 16 * 16 ^ length s"
    by (rule le)
  also have "\<dots> = (a + 1) * 16 ^ length (c # s)"
    by (simp add: algebra_simps)
  finally show ?case .
qed

lemma hex_value_bound: "list_all is_hex_digit s \<Longrightarrow> hex_value s < 16 ^ length s"
  using hex_fold_bound [of s 0] by (simp add: hex_value_def)

lemma length_last8: "8 \<le> length w \<Longrightarrow> length (last8 w) = 8"
  by (simp add: last8_def)

lemma seed_of_hex8:
  assumes "8 \<le> length w" and "list_all is_hex_digit (last8 w)"
  shows "nat (int (hex_value (last8 w)) mod 2 ^ 32) = hex_value (last8 w)"
proof -
  have "hex_value (last8 w) < 16 ^ 8"
    using hex_value_bound [OF assms(2)] length_last8 [OF assms(1)] by simp
  then have "int (hex_value (last8 w)) < 2 ^ 32"
    by simp
  then show ?thesis
    by simp
qed

subsection \<open>Runs on the counter library\<close>

lemma last8_wallet_3: "last8 wallet_3 = ''00000003''"
  by (simp add: last8_def wallet_3_def)

lemma hex_value_3: "hex_value ''00000003'' = 3"
  by (simp add: hex_value_def hex_digit_def)

lemma is_hex_3: "list_all is_hex_digit ''00000003''"
  by (simp add: is_hex_digit_def hex_digit_def)

lemma strict_int16_3: "strict_int16 ''00000003'' = Inr 3"
  by (simp add: strict_int16_def is_hex_digit_def hex_digit_def hex_value_def)

lemma simulate_seeded_3: "simulate_seeded counter_library 0 wallet_3 3 = (empty_wallet, 10)"
  by (simp add: simulate_seeded_def counter_library_def empty_wallet_def wallet_3_def)

lemma counter_library_int16: "py_int16 counter_library = strict_int16"
  by (simp add: counter_library_def)

lemma counter_library_seed: "np_seed counter_library n = n"
  by (simp add: counter_library_def)

lemma try_wallet_not_a_wallet:
  "try_wallet counter_library 0 g ''not a wallet'' = (Inl ValueError, g)"
  by (simp add: try_wallet_def fetch_wallet_transactions_def simulate_compound_data_def
      counter_library_int16 strict_int16_def last8_def is_hex_digit_def hex_digit_def)

lemma try_wallet_3:
  "try_wallet counter_library 0 g wallet_3 = (Inr (result_row wallet_3 zero_activity_features), 10)"
  by (simp add: try_wallet_def fetch_wallet_transactions_def simulate_compound_data_def
      counter_library_int16 last8_wallet_3 strict_int16_3 counter_library_seed
      simulate_seeded_3 extract_features_empty_wallet)

lemma batch_example:
  "process_wallet_list counter_library 0 0 [''not a wallet'', wallet_3]
     = [error_row ''not a wallet'', result_row wallet_3 zero_activity_features]"
  by (simp add: try_wallet_not_a_wallet try_wallet_3)

lemma explanation_zero_activity:
  "generate_risk_explanation zero_activity_features s = ''Poor repayment history; Inactive user''"
  by (simp add: generate_risk_explanation_def zero_activity_features_def)

lemma result_row_zero_activity:
  "result_row w zero_activity_features =
     \<lparr> row_wallet_id = w, row_score = 225,
       row_explanation = ''Poor repayment history; Inactive user'',
       row_liquidation_count = 0, row_repayment_ratio = 0, row_current_utilization = 0,
       row_activity_frequency = 0, row_asset_diversity = 0 \<rparr>"
proof -
  have "calculate_risk_score zero_activity_features = 225"
    by (simp add: calculate_risk_score_def base_score_zero_activity)
  moreover have "py_round 0 n = 0" for n
    by (simp add: py_round_def)
  moreover have "liquidation_count zero_activity_features = 0"
    "repayment_ratio zero_activity_features = 0"
    "current_utilization zero_activity_features = 0"
    "activity_frequency zero_activity_features = 0"
    "asset_diversity zero_activity_features = 0"
    by (simp_all add: zero_activity_features_def)
  ultimately show ?thesis
    by (simp add: result_row_def Let_def explanation_zero_activity)
qed


subsection \<open>The simulator is deterministic\<close>

text \<open>
  Claim C5. Let the last eight characters of the wallet identifier be hexadecimal
  digits, and let \<open>int(s, 16)\<close> return their value in base 16, as Python's does. Then
  two calls of the simulator with the same instant return the same result whatever the
  state of the global generator at each call: the same activity record (transactions
  with their timestamps, types, assets, amounts and hashes, liquidations, positions) and
  the same generator state afterwards. The call does not raise, and its result is the
  run from the generator seeded with that value, which is below \<open>2 ^ 32\<close> and so
  unchanged by the reduction.
\<close>

theorem simulation_deterministic:
  assumes "8 \<le> length w" and "list_all is_hex_digit (last8 w)"
    and "py_int16 lib (last8 w) = Inr (int (hex_value (last8 w)))"
  shows "simulate_compound_data lib now g1 w = simulate_compound_data lib now g2 w
    \<and> simulate_compound_data lib now g1 w
        = Inr (simulate_seeded lib now w (np_seed lib (hex_value (last8 w))))"
  using seed_of_hex8 [OF assms(1,2)] by (simp add: simulate_compound_data_def assms(3))

theorem simulation_deterministic_witness:
  "simulate_compound_data counter_library 0 5 wallet_3
     = simulate_compound_data counter_library 0 77 wallet_3
   \<and> simulate_compound_data counter_library 0 5 wallet_3 = Inr (empty_wallet, 10)"
proof -
  have len: "8 \<le> length wallet_3"
    by (simp add: wallet_3_def)
  have hex: "list_all is_hex_digit (last8 wallet_3)"
    unfolding last8_wallet_3 by (rule is_hex_3)
  have parse: "py_int16 counter_library (last8 wallet_3) = Inr (int (hex_value (last8 wallet_3)))"
    by (simp add: counter_library_int16 last8_wallet_3 strict_int16_3 hex_value_3)
  have run: "simulate_seeded counter_library 0 wallet_3
      (np_seed counter_library (hex_value (last8 wallet_3))) = (empty_wallet, 10)"
    by (simp add: last8_wallet_3 hex_value_3 counter_library_seed simulate_seeded_3)
  show ?thesis
    using simulation_deterministic [OF len hex parse, of 0 5 77] unfolding run .
qed

subsection \<open>The batch loop\<close>

lemma try_wallet_state_free: "fst (try_wallet lib now g w) = fst (try_wallet lib now g0 w)"
  by (simp add: try_wallet_def fetch_wallet_transactions_def simulate_compound_data_def
      split: sum.splits prod.splits)

lemma row_wallet_id_result_row: "row_wallet_id (result_row w f) = w"
  by (simp add: result_row_def Let_def)

lemma row_wallet_id_error_row: "row_wallet_id (error_row w) = w"
  by (simp add: error_row_def)

lemma try_wallet_row_id: "try_wallet lib now g w = (Inr row, g') \<Longrightarrow> row_wallet_id row = w"
  by (auto simp add: try_wallet_def row_wallet_id_result_row split: sum.splits prod.splits)

lemma process_wallet_list_ids: "map row_wallet_id (process_wallet_list lib now g ws) = ws"
proof (induction ws arbitrary: g)
  case Nil
  then show ?case by simp
next
  case (Cons w ws)
  show ?case
  proof (cases "try_wallet lib now g w")
    case (Pair r g')
    then show ?thesis
      using Cons.IH [of g'] try_wallet_row_id [of lib now g w _ g']
      by (cases r) (simp_all add: row_wallet_id_error_row)
  qed
qed

lemma process_wallet_list_Cons:
  "process_wallet_list lib now g (w # ws) =
     row_of (fst (try_wallet lib now g w)) w
       # process_wallet_list lib now (snd (try_wallet lib now g w)) ws"
  by (cases "try_wallet lib now g w") (simp add: row_of_def split: sum.splits)

lemma process_wallet_list_nth:
  "i < length ws \<Longrightarrow>
   process_wallet_list lib now g ws ! i = row_of (fst (try_wallet lib now g0 (ws ! i))) (ws ! i)"
proof (induction ws arbitrary: g i)
  case Nil
  then show ?case by simp
next
  case (Cons w ws)
  show ?case
  proof (cases i)
    case 0
    then show ?thesis
      using try_wallet_state_free [of lib now g w g0]
      by (simp add: process_wallet_list_Cons del: process_wallet_list.simps)
  next
    case (Suc j)
    then show ?thesis
      using Cons.prems Cons.IH [of j] 
      by (simp add: process_wallet_list_Cons del: process_wallet_list.simps)
  qed
qed

text \<open>
  Claim C4. For every list of wallets, whatever the library functions do: the result
  has one row per wallet, in the order of the input, each carrying its wallet
  identifier; the row of a wallet is the row the loop gives for that wallet alone, from
  any state of the generator, so no other wallet (failing or not) changes it; and when
  the \<open>try\<close> block raises for a wallet, its row is the fallback row: score 500,
  explanation "Error in processing", every other number 0. The clock is one instant
  \<open>now\<close> for the whole batch.
\<close>

theorem batch_error_row:
  "map row_wallet_id (process_wallet_list lib now g ws) = ws
   \<and> (\<forall>i<length ws. \<forall>g0.
        process_wallet_list lib now g ws ! i = hd (process_wallet_list lib now g0 [ws ! i]))
   \<and> (\<forall>i<length ws. \<forall>g0 e.
        fst (try_wallet lib now g0 (ws ! i)) = Inl e \<longrightarrow>
        process_wallet_list lib now g ws ! i =
          \<lparr> row_wallet_id = (ws ! i), row_score = 500,
             row_explanation = ''Error in processing'', row_liquidation_count = 0,
             row_repayment_ratio = 0, row_current_utilization = 0,
             row_activity_frequency = 0, row_asset_diversity = 0 \<rparr>)"
proof (intro conjI allI impI)
  show "map row_wallet_id (process_wallet_list lib now g ws) = ws"
    by (rule process_wallet_list_ids)
next
  fix i g0
  assume "i < length ws"
  then show "process_wallet_list lib now g ws ! i = hd (process_wallet_list lib now g0 [ws ! i])"
    using process_wallet_list_nth [of i ws lib now g g0]
    by (simp add: process_wallet_list_Cons del: process_wallet_list.simps)
next
  fix i g0 e
  assume "i < length ws" and "fst (try_wallet lib now g0 (ws ! i)) = Inl e"
  then show "process_wallet_list lib now g ws ! i =
          \<lparr> row_wallet_id = (ws ! i), row_score = 500,
             row_explanation = ''Error in processing'', row_liquidation_count = 0,
             row_repayment_ratio = 0, row_current_utilization = 0,
             row_activity_frequency = 0, row_asset_diversity = 0 \<rparr>"
    using process_wallet_list_nth [of i ws lib now g g0]
    by (simp add: row_of_def error_row_def)
qed

text \<open>
  On the counter library, a batch of a string that is no number and a wallet without
  activity: two rows in the order of the input, the first the fallback row, the second
  the row that wallet gets alone.
\<close>

theorem batch_error_row_witness:
  "map row_wallet_id (process_wallet_list counter_library 0 0 [''not a wallet'', wallet_3])
     = [''not a wallet'', wallet_3]
   \<and> process_wallet_list counter_library 0 0 [''not a wallet'', wallet_3] ! 0
     = \<lparr> row_wallet_id = ''not a wallet'', row_score = 500,
             row_explanation = ''Error in processing'', row_liquidation_count = 0,
             row_repayment_ratio = 0, row_current_utilization = 0,
             row_activity_frequency = 0, row_asset_diversity = 0 \<rparr>
   \<and> process_wallet_list counter_library 0 0 [''not a wallet'', wallet_3] ! 1
     = hd (process_wallet_list counter_library 0 42 [wallet_3])"
proof -
  let ?ws = "[''not a wallet'', wallet_3]"
  note t = batch_error_row [of counter_library 0 0 ?ws]
  from t have ids: "map row_wallet_id (process_wallet_list counter_library 0 0 ?ws) = ?ws"
    by blast
  from t have "\<forall>i<length ?ws. \<forall>g0 e.
      fst (try_wallet counter_library 0 g0 (?ws ! i)) = Inl e \<longrightarrow>
      process_wallet_list counter_library 0 0 ?ws ! i =
          \<lparr> row_wallet_id = (?ws ! i), row_score = 500,
             row_explanation = ''Error in processing'', row_liquidation_count = 0,
             row_repayment_ratio = 0, row_current_utilization = 0,
             row_activity_frequency = 0, row_asset_diversity = 0 \<rparr>"
    by blast
  then have "fst (try_wallet counter_library 0 0 (?ws ! 0)) = Inl ValueError \<longrightarrow>
      process_wallet_list counter_library 0 0 ?ws ! 0 =
          \<lparr> row_wallet_id = (?ws ! 0), row_score = 500,
             row_explanation = ''Error in processing'', row_liquidation_count = 0,
             row_repayment_ratio = 0, row_current_utilization = 0,
             row_activity_frequency = 0, row_asset_diversity = 0 \<rparr>"
    by (metis length_greater_0_conv list.distinct(1))
  then have err: "process_wallet_list counter_library 0 0 ?ws ! 0 =
          \<lparr> row_wallet_id = ''not a wallet'', row_score = 500,
             row_explanation = ''Error in processing'', row_liquidation_count = 0,
             row_repayment_ratio = 0, row_current_utilization = 0,
             row_activity_frequency = 0, row_asset_diversity = 0 \<rparr>"
    by (simp add: try_wallet_not_a_wallet)
  from t have "\<forall>i<length ?ws. \<forall>g0.
      process_wallet_list counter_library 0 0 ?ws ! i
        = hd (process_wallet_list counter_library 0 g0 [?ws ! i])"
    by blast
  then have "1 < length ?ws \<longrightarrow>
      process_wallet_list counter_library 0 0 ?ws ! 1
        = hd (process_wallet_list counter_library 0 42 [?ws ! 1])"
    by blast
  then have other: "process_wallet_list counter_library 0 0 ?ws ! 1
        = hd (process_wallet_list counter_library 0 42 [wallet_3])"
    by simp
  from ids err other show ?thesis
    by blast
qed

end
